theory Spec2Isabelle
  imports Complex_Main
begin

section \<open>Python values, exceptions and dynamic operations\<close>

text \<open>
  The facade of \<^verbatim>\<open>src/core/ollama_client.py\<close> handles dynamically typed values that come
  back from the client library. They are modelled by one datatype. A \<open>PDict\<close> is a
  dictionary with string keys (what the JSON replies of the server are made of); a
  \<open>PObj\<close> is a structured object that carries data attributes and nothing else.
  A \<open>string\<close> stands for a Python \<open>str\<close>, one \<open>char\<close> for each character.
\<close>

datatype pyval =
    PNone
  | PBool bool
  | PInt int
  | PFloat rat
  | PStr string
  | PList "pyval list"
  | PDict "(string \<times> pyval) list"
  | PObj "(string \<times> pyval) list"

text \<open>
  The exceptions are the instances of Python's \<open>Exception\<close> class, the ones an
  \<^verbatim>\<open>except Exception\<close> clause catches. \<open>ResponseError\<close> is the structured error
  of the client library, with its fields \<open>error\<close> and \<open>status_code\<close>.
\<close>

datatype exn =
    ResponseError string int
  | AttributeError
  | KeyError
  | TypeError
  | ImportError string
  | OtherException string

text \<open>The method call \<^verbatim>\<open>x.get(k, d)\<close>.\<close>

fun py_get :: "pyval \<Rightarrow> string \<Rightarrow> pyval \<Rightarrow> exn + pyval" where
  "py_get (PDict d) k dflt = Inr (case map_of d k of None \<Rightarrow> dflt | Some v \<Rightarrow> v)"
| "py_get (PObj a) k dflt =
     (case map_of a ''get'' of None \<Rightarrow> Inl AttributeError | Some v \<Rightarrow> Inl TypeError)"
| "py_get v k dflt = Inl AttributeError"

text \<open>The subscription \<^verbatim>\<open>x[k]\<close> with a string key.\<close>

fun py_getitem :: "pyval \<Rightarrow> string \<Rightarrow> exn + pyval" where
  "py_getitem (PDict d) k = (case map_of d k of None \<Rightarrow> Inl KeyError | Some v \<Rightarrow> Inr v)"
| "py_getitem v k = Inl TypeError"

text \<open>\<^verbatim>\<open>len(x)\<close>.\<close>

fun py_len :: "pyval \<Rightarrow> exn + nat" where
  "py_len (PList xs) = Inr (length xs)"
| "py_len (PDict d) = Inr (length d)"
| "py_len (PStr s) = Inr (length s)"
| "py_len v = Inl TypeError"

text \<open>The elements a \<^verbatim>\<open>for\<close> loop over \<open>x\<close> visits.\<close>

fun py_iter :: "pyval \<Rightarrow> exn + pyval list" where
  "py_iter (PList xs) = Inr xs"
| "py_iter (PDict d) = Inr (map (\<lambda>kv. PStr (fst kv)) d)"
| "py_iter (PStr s) = Inr (map (\<lambda>c. PStr [c]) s)"
| "py_iter v = Inl TypeError"

text \<open>
  \<^verbatim>\<open>hasattr(x, k)\<close>, \<^verbatim>\<open>x.k\<close> and \<^verbatim>\<open>getattr(x, k, d)\<close> for the data attributes the
  program asks for (\<open>model\<close>, \<open>size\<close>, \<open>modified_at\<close>, \<open>digest\<close>, \<open>details\<close>): none
  of them is an attribute of a built-in value.
\<close>

fun py_hasattr :: "pyval \<Rightarrow> string \<Rightarrow> bool" where
  "py_hasattr (PObj a) k = (map_of a k \<noteq> None)"
| "py_hasattr v k = False"

fun py_attr :: "pyval \<Rightarrow> string \<Rightarrow> exn + pyval" where
  "py_attr (PObj a) k = (case map_of a k of None \<Rightarrow> Inl AttributeError | Some v \<Rightarrow> Inr v)"
| "py_attr v k = Inl AttributeError"

fun py_getattr :: "pyval \<Rightarrow> string \<Rightarrow> pyval \<Rightarrow> pyval" where
  "py_getattr (PObj a) k dflt = (case map_of a k of None \<Rightarrow> dflt | Some v \<Rightarrow> v)"
| "py_getattr v k dflt = dflt"

text \<open>
  \<^verbatim>\<open>x or d\<close> for an optional string \<open>x\<close>: \<open>None\<close> and the empty string are false.
\<close>

fun py_or :: "string option \<Rightarrow> string \<Rightarrow> string" where
  "py_or None d = d"
| "py_or (Some s) d = (if s = [] then d else s)"

text \<open>\<^verbatim>\<open>os.getenv(k, d)\<close> on the environment of the process.\<close>

definition getenv :: "(string \<rightharpoonup> string) \<Rightarrow> string \<Rightarrow> string \<Rightarrow> string" where
  "getenv env k d = (case env k of None \<Rightarrow> d | Some v \<Rightarrow> v)"

section \<open>The client library, the log and the state of the process\<close>

text \<open>
  The client library (\<^verbatim>\<open>ollama\<close>) is not part of the repository: its behaviour is a
  parameter. Each operation either raises or returns a value: \<open>new_client h\<close> is
  \<^verbatim>\<open>Client(host=h)\<close>; \<open>client_list\<close>, \<open>client_chat model messages options\<close>,
  \<open>client_generate model prompt\<close> and \<open>client_pull model\<close> are the methods
  \<open>list\<close>, \<open>chat\<close>, \<open>generate\<close> and \<open>pull\<close> of the client of the facade;
  \<open>module_chat model messages\<close> is the function \<^verbatim>\<open>ollama.chat\<close> of the module.
\<close>

record ollama_lib =
  new_client :: "string \<Rightarrow> exn + unit"
  client_list :: "exn + pyval"
  client_chat :: "string \<Rightarrow> pyval \<Rightarrow> pyval \<Rightarrow> exn + pyval"
  client_generate :: "string \<Rightarrow> string \<Rightarrow> exn + pyval"
  client_pull :: "string \<Rightarrow> exn + pyval"
  module_chat :: "string \<Rightarrow> pyval \<Rightarrow> exn + pyval"

text \<open>The requests issued to the library, in the order they are made.\<close>

datatype call =
    New_client string
  | List_call
  | Chat_call string pyval pyval
  | Generate_call string string
  | Pull_call string
  | Module_chat_call string pyval

text \<open>
  A log record is the level, the message template (one constant for each f-string of
  the source, whose fixed text is Chinese) and the values interpolated into it, in order.
  The templates, by the line of the source that logs them: \<open>Msg_init\<close> 34 (host,
  model), \<open>Msg_connected\<close> 46 (model count), \<open>Msg_connect_failed\<close> 49 (exception),
  \<open>Msg_list_failed\<close> 80 (exception), \<open>Msg_response_error\<close> 135 and 184 (error,
  status code), \<open>Msg_generate_failed\<close> 138 and 187 (exception),
  \<open>Msg_chat_response_error\<close> 217 (error), \<open>Msg_chat_failed\<close> 220 (exception),
  \<open>Msg_model_exists\<close> 239, \<open>Msg_pulling\<close> 243 and \<open>Msg_pulled\<close> 245 (model),
  \<open>Msg_pull_failed\<close> 249 (exception), \<open>Msg_simple_chat_failed\<close> 274 (exception).
\<close>

datatype log_level = INFO | ERROR

datatype template =
    Msg_init
  | Msg_connected
  | Msg_connect_failed
  | Msg_list_failed
  | Msg_response_error
  | Msg_generate_failed
  | Msg_chat_response_error
  | Msg_chat_failed
  | Msg_model_exists
  | Msg_pulling
  | Msg_pulled
  | Msg_pull_failed
  | Msg_simple_chat_failed

datatype fmt_arg = Str_arg string | Int_arg int | Nat_arg nat | Exn_arg exn

datatype log_record = Log log_level template "fmt_arg list"

text \<open>
  An instance of the facade: its configuration, and \<open>oid\<close>, the identity of the
  object, which tells two instances with the same configuration apart.
\<close>

record OllamaClient =
  oid :: nat
  host :: string
  model_name :: string

text \<open>
  The state of the process: the requests issued so far, the records logged so far, the
  identity the next object gets, and the module global \<^verbatim>\<open>_ollama_client\<close>.
\<close>

record world =
  calls :: "call list"
  logs :: "log_record list"
  next_oid :: nat
  ollama_client_global :: "OllamaClient option"

text \<open>A computation runs on the state of the process and returns or raises.\<close>

type_synonym 'a py = "world \<Rightarrow> (exn + 'a) \<times> world"

definition ret :: "'a \<Rightarrow> 'a py" where
  "ret x w = (Inr x, w)"

definition lift :: "exn + 'a \<Rightarrow> 'a py" where
  "lift r w = (r, w)"

definition py_bind :: "'a py \<Rightarrow> ('a \<Rightarrow> 'b py) \<Rightarrow> 'b py" where
  "py_bind m f w = (case m w of (Inl e, w') \<Rightarrow> (Inl e, w') | (Inr x, w') \<Rightarrow> f x w')"

text \<open>\<^verbatim>\<open>try: m  except ... as e: h e\<close>, the handler catching every exception.\<close>

definition try_except :: "'a py \<Rightarrow> (exn \<Rightarrow> 'a py) \<Rightarrow> 'a py" where
  "try_except m h w = (case m w of (Inl e, w') \<Rightarrow> h e w' | (Inr x, w') \<Rightarrow> (Inr x, w'))"

definition client_call :: "call \<Rightarrow> (exn + 'a) \<Rightarrow> 'a py" where
  "client_call c r w = (r, w\<lparr>calls := calls w @ [c]\<rparr>)"

definition logger_info :: "template \<Rightarrow> fmt_arg list \<Rightarrow> unit py" where
  "logger_info t args w = (Inr (), w\<lparr>logs := logs w @ [Log INFO t args]\<rparr>)"

definition logger_error :: "template \<Rightarrow> fmt_arg list \<Rightarrow> unit py" where
  "logger_error t args w = (Inr (), w\<lparr>logs := logs w @ [Log ERROR t args]\<rparr>)"

definition new_object :: "nat py" where
  "new_object w = (Inr (next_oid w), w\<lparr>next_oid := Suc (next_oid w)\<rparr>)"

section \<open>The facade: class \<open>OllamaClient\<close>\<close>

text \<open>
  \<^verbatim>\<open>OllamaClient.__init__(host=None, model_name=None)\<close>: the configuration comes from the
  arguments or from the environment, then the library client is built and the
  configuration is logged.
\<close>

definition OllamaClient_init ::
  "(string \<rightharpoonup> string) \<Rightarrow> ollama_lib \<Rightarrow> string option \<Rightarrow> string option \<Rightarrow> OllamaClient py" where
  "OllamaClient_init env lib host_arg model_name_arg =
     py_bind new_object (\<lambda>i.
       let h = py_or host_arg (getenv env ''OLLAMA_HOST'' ''http://localhost:11434'');
           m = py_or model_name_arg (getenv env ''MODEL_NAME'' ''gemma3:27b'')
       in py_bind (client_call (New_client h) (new_client lib h)) (\<lambda>u.
          py_bind (logger_info Msg_init [Str_arg h, Str_arg m]) (\<lambda>u.
          ret \<lparr>oid = i, host = h, model_name = m\<rparr>)))"

definition test_connection :: "ollama_lib \<Rightarrow> OllamaClient \<Rightarrow> bool py" where
  "test_connection lib self =
     try_except
       (py_bind (client_call List_call (client_list lib)) (\<lambda>models.
        py_bind (lift (py_get models ''models'' (PList []))) (\<lambda>ms.
        py_bind (lift (py_len ms)) (\<lambda>model_count.
        py_bind (logger_info Msg_connected [Nat_arg model_count]) (\<lambda>u.
        ret True)))))
       (\<lambda>e. py_bind (logger_error Msg_connect_failed [Exn_arg e]) (\<lambda>u. ret False))"

text \<open>The body of the loop of \<open>list_models\<close>, and the loop with its accumulator.\<close>

definition process_model :: "pyval \<Rightarrow> exn + pyval" where
  "process_model model =
     (if py_hasattr model ''model'' then
        (case py_attr model ''model'' of
           Inl e \<Rightarrow> Inl e
         | Inr n \<Rightarrow> Inr (PDict [
             (''name'', n),
             (''size'', py_getattr model ''size'' (PInt 0)),
             (''modified_at'', py_getattr model ''modified_at'' PNone),
             (''digest'', py_getattr model ''digest'' (PStr [])),
             (''details'', py_getattr model ''details'' (PDict []))]))
      else Inr model)"

fun process_models :: "pyval list \<Rightarrow> pyval list \<Rightarrow> exn + pyval list" where
  "process_models [] processed_models = Inr processed_models"
| "process_models (model # models) processed_models =
     (case process_model model of
        Inl e \<Rightarrow> Inl e
      | Inr v \<Rightarrow> process_models models (processed_models @ [v]))"

definition list_models :: "ollama_lib \<Rightarrow> OllamaClient \<Rightarrow> pyval list py" where
  "list_models lib self =
     try_except
       (py_bind (client_call List_call (client_list lib)) (\<lambda>response.
        py_bind (lift (py_get response ''models'' (PList []))) (\<lambda>models.
        py_bind (lift (py_iter models)) (\<lambda>ms.
        lift (process_models ms [])))))
       (\<lambda>e. py_bind (logger_error Msg_list_failed [Exn_arg e]) (\<lambda>u. ret []))"

text \<open>A message of a conversation: \<^verbatim>\<open>{'role': r, 'content': c}\<close>.\<close>

definition message :: "string \<Rightarrow> string \<Rightarrow> pyval" where
  "message r c = PDict [(''role'', PStr r), (''content'', PStr c)]"

text \<open>The defaults of the keyword arguments \<open>temperature\<close> and \<open>max_tokens\<close>.\<close>

definition default_temperature :: pyval where
  "default_temperature = PFloat 0.7"

definition default_max_tokens :: pyval where
  "default_max_tokens = PInt 1000"

text \<open>
  The message array of \<open>generate_response\<close>: \<^verbatim>\<open>if system_prompt:\<close> holds for a
  string that is not empty.
\<close>

definition build_messages :: "string \<Rightarrow> string option \<Rightarrow> pyval list" where
  "build_messages prompt system_prompt =
     (let messages = [];
          messages = (case system_prompt of
                        None \<Rightarrow> messages
                      | Some s \<Rightarrow> if s \<noteq> [] then messages @ [message ''system'' s]
                                 else messages);
          messages = messages @ [message ''user'' prompt]
      in messages)"

definition generate_response ::
  "ollama_lib \<Rightarrow> OllamaClient \<Rightarrow> string \<Rightarrow> string option \<Rightarrow> string option \<Rightarrow> pyval \<Rightarrow> pyval
     \<Rightarrow> pyval py" where
  "generate_response lib self prompt model system_prompt temperature max_tokens =
     (let model = py_or model (model_name self) in
      try_except
        (let messages = PList (build_messages prompt system_prompt);
             options = PDict [(''temperature'', temperature), (''num_predict'', max_tokens)]
         in py_bind (client_call (Chat_call model messages options)
                       (client_chat lib model messages options)) (\<lambda>response.
            py_bind (lift (py_getitem response ''message'')) (\<lambda>msg.
            lift (py_getitem msg ''content''))))
        (\<lambda>e. case e of
           ResponseError err code \<Rightarrow>
             py_bind (logger_error Msg_response_error [Str_arg err, Int_arg code])
               (\<lambda>u. ret PNone)
         | _ \<Rightarrow> py_bind (logger_error Msg_generate_failed [Exn_arg e]) (\<lambda>u. ret PNone)))"

definition generate_with_personality ::
  "ollama_lib \<Rightarrow> OllamaClient \<Rightarrow> string \<Rightarrow> string \<Rightarrow> string option \<Rightarrow> pyval py" where
  "generate_with_personality lib self prompt personality_prompt model =
     generate_response lib self prompt model (Some personality_prompt) (PFloat 0.8)
       default_max_tokens"

definition generate_simple ::
  "ollama_lib \<Rightarrow> OllamaClient \<Rightarrow> string \<Rightarrow> string option \<Rightarrow> pyval py" where
  "generate_simple lib self prompt model =
     (let model = py_or model (model_name self) in
      try_except
        (py_bind (client_call (Generate_call model prompt) (client_generate lib model prompt))
           (\<lambda>response. lift (py_getitem response ''response'')))
        (\<lambda>e. case e of
           ResponseError err code \<Rightarrow>
             py_bind (logger_error Msg_response_error [Str_arg err, Int_arg code])
               (\<lambda>u. ret PNone)
         | _ \<Rightarrow> py_bind (logger_error Msg_generate_failed [Exn_arg e]) (\<lambda>u. ret PNone)))"

definition chat_with_history ::
  "ollama_lib \<Rightarrow> OllamaClient \<Rightarrow> pyval \<Rightarrow> string option \<Rightarrow> pyval \<Rightarrow> pyval py" where
  "chat_with_history lib self messages model temperature =
     (let model = py_or model (model_name self) in
      try_except
        (let options = PDict [(''temperature'', temperature)]
         in py_bind (client_call (Chat_call model messages options)
                       (client_chat lib model messages options)) (\<lambda>response.
            py_bind (lift (py_getitem response ''message'')) (\<lambda>msg.
            lift (py_getitem msg ''content''))))
        (\<lambda>e. case e of
           ResponseError err code \<Rightarrow>
             py_bind (logger_error Msg_chat_response_error [Str_arg err]) (\<lambda>u. ret PNone)
         | _ \<Rightarrow> py_bind (logger_error Msg_chat_failed [Exn_arg e]) (\<lambda>u. ret PNone)))"

text \<open>The comprehension \<^verbatim>\<open>[m.get('name', '') for m in models]\<close>.\<close>

fun model_names_of :: "pyval list \<Rightarrow> exn + pyval list" where
  "model_names_of [] = Inr []"
| "model_names_of (m # models) =
     (case py_get m ''name'' (PStr []) of
        Inl e \<Rightarrow> Inl e
      | Inr n \<Rightarrow> (case model_names_of models of Inl e \<Rightarrow> Inl e | Inr ns \<Rightarrow> Inr (n # ns)))"

definition pull_model_if_needed :: "ollama_lib \<Rightarrow> OllamaClient \<Rightarrow> string \<Rightarrow> bool py" where
  "pull_model_if_needed lib self model =
     try_except
       (py_bind (list_models lib self) (\<lambda>models.
        py_bind (lift (model_names_of models)) (\<lambda>model_names.
        if PStr model \<in> set model_names then
          py_bind (logger_info Msg_model_exists [Str_arg model]) (\<lambda>u. ret True)
        else
          py_bind (logger_info Msg_pulling [Str_arg model]) (\<lambda>u.
          py_bind (client_call (Pull_call model) (client_pull lib model)) (\<lambda>r.
          py_bind (logger_info Msg_pulled [Str_arg model]) (\<lambda>u.
          ret True))))))
       (\<lambda>e. py_bind (logger_error Msg_pull_failed [Exn_arg e]) (\<lambda>u. ret False))"

section \<open>The module-level functions\<close>

definition simple_chat ::
  "(string \<rightharpoonup> string) \<Rightarrow> ollama_lib \<Rightarrow> string \<Rightarrow> string option \<Rightarrow> pyval py" where
  "simple_chat env lib msg model =
     (let model = (case model of None \<Rightarrow> getenv env ''MODEL_NAME'' ''gemma3:1b'' | Some m \<Rightarrow> m)
      in try_except
        (let messages = PList [message ''user'' msg]
         in py_bind (client_call (Module_chat_call model messages)
                       (module_chat lib model messages)) (\<lambda>response.
            py_bind (lift (py_getitem response ''message'')) (\<lambda>reply.
            lift (py_getitem reply ''content''))))
        (\<lambda>e. py_bind (logger_error Msg_simple_chat_failed [Exn_arg e]) (\<lambda>u. ret PNone)))"

text \<open>
  \<open>get_ollama_client\<close> on the module global \<^verbatim>\<open>_ollama_client\<close>, which the module
  initialises to \<open>None\<close>.
\<close>

definition get_ollama_client :: "(string \<rightharpoonup> string) \<Rightarrow> ollama_lib \<Rightarrow> OllamaClient py" where
  "get_ollama_client env lib w =
     (case ollama_client_global w of
        None \<Rightarrow>
          py_bind (OllamaClient_init env lib None None)
            (\<lambda>c w'. (Inr c, w'\<lparr>ollama_client_global := Some c\<rparr>)) w
      | Some c \<Rightarrow> (Inr c, w))"

section \<open>What a run does: result, requests issued, records logged\<close>

definition result :: "'a py \<Rightarrow> world \<Rightarrow> exn + 'a" where
  "result m w = fst (m w)"

definition issued :: "'a py \<Rightarrow> world \<Rightarrow> call list" where
  "issued m w = drop (length (calls w)) (calls (snd (m w)))"

definition logged :: "'a py \<Rightarrow> world \<Rightarrow> log_record list" where
  "logged m w = drop (length (logs w)) (logs (snd (m w)))"

section \<open>The operations of the module as steps on the state of the process\<close>

text \<open>
  Everything a caller of the module can do: the accessor, the constructor of the class,
  its seven methods and \<open>simple_chat\<close>. \<open>run_ops\<close> runs a sequence of them and keeps
  the state, whatever each one returns.
\<close>

datatype module_op =
    Get_ollama_client
  | New_OllamaClient "string option" "string option"
  | Test_connection OllamaClient
  | List_models OllamaClient
  | Generate_response OllamaClient string "string option" "string option" pyval pyval
  | Generate_with_personality OllamaClient string string "string option"
  | Generate_simple OllamaClient string "string option"
  | Chat_with_history OllamaClient pyval "string option" pyval
  | Pull_model_if_needed OllamaClient string
  | Simple_chat string "string option"

fun run_op :: "(string \<rightharpoonup> string) \<Rightarrow> ollama_lib \<Rightarrow> module_op \<Rightarrow> world \<Rightarrow> world" where
  "run_op env lib Get_ollama_client w = snd (get_ollama_client env lib w)"
| "run_op env lib (New_OllamaClient h m) w = snd (OllamaClient_init env lib h m w)"
| "run_op env lib (Test_connection self) w = snd (test_connection lib self w)"
| "run_op env lib (List_models self) w = snd (list_models lib self w)"
| "run_op env lib (Generate_response self p m sp t mt) w =
     snd (generate_response lib self p m sp t mt w)"
| "run_op env lib (Generate_with_personality self p pp m) w =
     snd (generate_with_personality lib self p pp m w)"
| "run_op env lib (Generate_simple self p m) w = snd (generate_simple lib self p m w)"
| "run_op env lib (Chat_with_history self ms m t) w =
     snd (chat_with_history lib self ms m t w)"
| "run_op env lib (Pull_model_if_needed self m) w = snd (pull_model_if_needed lib self m w)"
| "run_op env lib (Simple_chat msg m) w = snd (simple_chat env lib msg m w)"

fun run_ops :: "(string \<rightharpoonup> string) \<Rightarrow> ollama_lib \<Rightarrow> module_op list \<Rightarrow> world \<Rightarrow> world" where
  "run_ops env lib [] w = w"
| "run_ops env lib (op # ops) w = run_ops env lib ops (run_op env lib op w)"

text \<open>A computation that leaves the module global \<^verbatim>\<open>_ollama_client\<close> as it found it.\<close>

definition keeps_global :: "'a py \<Rightarrow> bool" where
  "keeps_global m = (\<forall>w. ollama_client_global (snd (m w)) = ollama_client_global w)"

section \<open>The smoke-test script \<open>test_ollama.py\<close> up to its imports\<close>

text \<open>
  The names \<^verbatim>\<open>src/core/ollama_client.py\<close> binds at module level: its imports, the
  logger, the class, the two functions and the global.
\<close>

definition ollama_client_module :: "string list" where
  "ollama_client_module =
     [''ollama'', ''Client'', ''ResponseError'', ''os'', ''Dict'', ''List'', ''Optional'',
      ''Any'', ''load_dotenv'', ''logging'', ''logger'', ''OllamaClient'', ''simple_chat'',
      ''_ollama_client'', ''get_ollama_client'']"

text \<open>
  Importing the module runs its body: it fails with the error of a missing third-party
  package (\<open>Some e\<close>), or gives the namespace above.
\<close>

definition import_ollama_client :: "exn option \<Rightarrow> exn + string list" where
  "import_ollama_client missing =
     (case missing of Some e \<Rightarrow> Inl e | None \<Rightarrow> Inr ollama_client_module)"

text \<open>
  \<^verbatim>\<open>from m import a, b, ...\<close> on the namespace of \<open>m\<close>: the names are looked up in
  order, and the first one that is not there raises \<open>ImportError\<close>.
\<close>

fun import_from :: "string list \<Rightarrow> string list \<Rightarrow> exn + unit" where
  "import_from ns [] = Inr ()"
| "import_from ns (x # xs) = (if x \<in> set ns then import_from ns xs else Inl (ImportError x))"

text \<open>
  The script: line 9 imports four names from the facade module; \<open>main\<close> stands for all
  that follows (the definitions of the six checks and the call of \<^verbatim>\<open>main()\<close>).
\<close>

definition test_ollama :: "exn option \<Rightarrow> unit py \<Rightarrow> unit py" where
  "test_ollama missing main =
     py_bind (lift (import_ollama_client missing)) (\<lambda>ns.
     py_bind (lift (import_from ns
       [''OllamaClient'', ''get_ollama_client'', ''simple_chat'', ''simple_generate''])) (\<lambda>u.
     main))"

section \<open>The message array as the specification words it\<close>

text \<open>
  The specification of \<open>generate_response\<close> prepends a system message
  "if \<open>system_prompt\<close> given". This definition follows those words, for comparison with
  \<open>build_messages\<close>.
\<close>

definition spec_build_messages :: "string \<Rightarrow> string option \<Rightarrow> pyval list" where
  "spec_build_messages prompt system_prompt =
     (case system_prompt of None \<Rightarrow> [] | Some s \<Rightarrow> [message ''system'' s])
       @ [message ''user'' prompt]"

section \<open>Example inputs\<close>

text \<open>The state of the process when the module has just been imported.\<close>

definition module_loaded :: world where
  "module_loaded = \<lparr>calls = [], logs = [], next_oid = 0, ollama_client_global = None\<rparr>"

definition example_client :: OllamaClient where
  "example_client = \<lparr>oid = 0, host = ''http://localhost:11434'', model_name = ''gemma3:27b''\<rparr>"

definition example_reply :: pyval where
  "example_reply =
     PDict [(''message'', PDict [(''role'', PStr ''assistant''), (''content'', PStr ''hello'')])]"

text \<open>A server that answers: one structured model entry, one entry that is a mapping.\<close>

definition lib_up :: ollama_lib where
  "lib_up = \<lparr>
     new_client = (\<lambda>h. Inr ()),
     client_list = Inr (PDict [(''models'',
        PList [PObj [(''model'', PStr ''llama3'')], PDict [(''name'', PStr ''phi3'')]])]),
     client_chat = (\<lambda>m ms os. Inr example_reply),
     client_generate = (\<lambda>m p. Inr (PDict [(''response'', PStr ''hello'')])),
     client_pull = (\<lambda>m. Inr (PDict [(''status'', PStr ''success'')])),
     module_chat = (\<lambda>m ms. Inr example_reply)\<rparr>"

text \<open>A server that cannot be reached: every operation raises.\<close>

definition lib_down :: ollama_lib where
  "lib_down = \<lparr>
     new_client = (\<lambda>h. Inl (OtherException ''connection refused'')),
     client_list = Inl (OtherException ''connection refused''),
     client_chat = (\<lambda>m ms os. Inl (OtherException ''connection refused'')),
     client_generate = (\<lambda>m p. Inl (OtherException ''connection refused'')),
     client_pull = (\<lambda>m. Inl (OtherException ''connection refused'')),
     module_chat = (\<lambda>m ms. Inl (OtherException ''connection refused''))\<rparr>"

text \<open>A server whose chat operation raises the structured error.\<close>

definition lib_404 :: ollama_lib where
  "lib_404 = lib_up\<lparr>client_chat := (\<lambda>m ms os. Inl (ResponseError ''model not found'' 404))\<rparr>"

text \<open>A server whose one model entry is a structured object with only \<open>name\<close> set.\<close>

definition lib_name_only :: ollama_lib where
  "lib_name_only =
     lib_up\<lparr>client_list := Inr (PDict [(''models'', PList [PObj [(''name'', PStr ''llama3'')]])])\<rparr>"

text \<open>The conversation of four messages that ends in a question of the user.\<close>

definition conversation :: pyval where
  "conversation = PList [
     message ''system'' ''You are a friendly assistant.'',
     message ''user'' ''Hello! My name is Ming.'',
     message ''assistant'' ''Hello Ming! Nice to meet you.'',
     message ''user'' ''Do you remember my name?'']"

section \<open>Running a computation\<close>

lemmas run_defs = ret_def lift_def py_bind_def try_except_def client_call_def
  logger_info_def logger_error_def result_def issued_def logged_def

lemmas example_defs = module_loaded_def example_client_def example_reply_def lib_up_def
  lib_down_def lib_404_def lib_name_only_def conversation_def message_def
  default_temperature_def default_max_tokens_def

section \<open>No exception escapes the facade\<close>

lemma test_connection_returns: "\<exists>b. result (test_connection lib self) w = Inr b"
  by (auto simp: test_connection_def run_defs split: sum.splits prod.splits)

lemma test_connection_down:
  "isl (client_list lib) \<Longrightarrow> result (test_connection lib self) w = Inr False"
  by (cases "client_list lib") (simp_all add: test_connection_def run_defs)

lemma list_models_returns: "\<exists>ms. result (list_models lib self) w = Inr ms"
  by (auto simp: list_models_def run_defs split: sum.splits prod.splits)

lemma list_models_down: "isl (client_list lib) \<Longrightarrow> result (list_models lib self) w = Inr []"
  by (cases "client_list lib") (simp_all add: list_models_def run_defs)

lemma generate_response_returns:
  "\<exists>v. result (generate_response lib self prompt model sp t mt) w = Inr v"
  by (auto simp: generate_response_def Let_def run_defs
      split: sum.splits prod.splits exn.splits)

lemma generate_response_down:
  "isl (client_chat lib (py_or model (model_name self)) (PList (build_messages prompt sp))
     (PDict [(''temperature'', t), (''num_predict'', mt)])) \<Longrightarrow>
   result (generate_response lib self prompt model sp t mt) w = Inr PNone"
  by (auto simp: generate_response_def Let_def run_defs isl_def split: exn.splits)

lemma generate_simple_returns: "\<exists>v. result (generate_simple lib self prompt model) w = Inr v"
  by (auto simp: generate_simple_def Let_def run_defs
      split: sum.splits prod.splits exn.splits)

lemma generate_simple_down:
  "isl (client_generate lib (py_or model (model_name self)) prompt) \<Longrightarrow>
   result (generate_simple lib self prompt model) w = Inr PNone"
  by (auto simp: generate_simple_def Let_def run_defs isl_def split: exn.splits)

lemma chat_with_history_returns:
  "\<exists>v. result (chat_with_history lib self messages model t) w = Inr v"
  by (auto simp: chat_with_history_def Let_def run_defs
      split: sum.splits prod.splits exn.splits)

lemma chat_with_history_down:
  "isl (client_chat lib (py_or model (model_name self)) messages
     (PDict [(''temperature'', t)])) \<Longrightarrow>
   result (chat_with_history lib self messages model t) w = Inr PNone"
  by (auto simp: chat_with_history_def Let_def run_defs isl_def split: exn.splits)

lemma pull_model_if_needed_returns:
  "\<exists>b. result (pull_model_if_needed lib self m) w = Inr b"
  by (auto simp: pull_model_if_needed_def run_defs split: sum.splits prod.splits)

lemma list_models_calls: "calls (snd (list_models lib self w)) = calls w @ [List_call]"
  by (auto simp: list_models_def run_defs split: sum.splits prod.splits)

lemma list_models_run:
  "\<exists>ms w'. list_models lib self w = (Inr ms, w') \<and> calls w' = calls w @ [List_call]"
proof -
  obtain ms where "result (list_models lib self) w = Inr ms"
    using list_models_returns by blast
  then have "list_models lib self w = (Inr ms, snd (list_models lib self w))"
    by (simp add: result_def prod_eq_iff)
  then show ?thesis using list_models_calls by blast
qed

lemma pull_model_if_needed_down:
  assumes "isl (client_pull lib m)"
    and "Pull_call m \<in> set (issued (pull_model_if_needed lib self m) w)"
  shows "result (pull_model_if_needed lib self m) w = Inr False"
proof -
  obtain ms w' where lm: "list_models lib self w = (Inr ms, w')"
    and c: "calls w' = calls w @ [List_call]"
    using list_models_run by blast
  obtain e where e: "client_pull lib m = Inl e"
    using assms(1) by (auto simp: isl_def)
  show ?thesis
  proof (cases "model_names_of ms")
    case (Inl x)
    then show ?thesis
      by (simp add: pull_model_if_needed_def py_bind_def try_except_def lift_def
          logger_error_def ret_def result_def lm)
  next
    case (Inr names)
    show ?thesis
    proof (cases "PStr m \<in> set names")
      case True
      then have "issued (pull_model_if_needed lib self m) w = [List_call]"
        by (simp add: pull_model_if_needed_def py_bind_def try_except_def lift_def
            logger_info_def ret_def issued_def lm Inr c)
      with assms(2) show ?thesis by simp
    next
      case False
      then show ?thesis
        by (simp add: pull_model_if_needed_def py_bind_def try_except_def lift_def
            logger_info_def logger_error_def client_call_def ret_def result_def lm Inr e)
    qed
  qed
qed

text \<open>
  Claim C1. Whatever the client library does, each of the seven methods of the facade
  returns a value and raises nothing. When the client call of a method raises, the
  method returns its sentinel: \<open>False\<close> for \<open>test_connection\<close>, the empty list for
  \<open>list_models\<close>, \<open>None\<close> for the four generation and chat methods, and \<open>False\<close> for
  \<open>pull_model_if_needed\<close> when the pull it has issued raises. (A failure of the list
  call inside \<open>pull_model_if_needed\<close> is caught by \<open>list_models\<close>, which returns its
  own sentinel, the empty list.)
\<close>

theorem facade_no_exception_escapes:
  "(\<exists>b. result (test_connection lib self) w = Inr b) \<and>
   (\<exists>ms. result (list_models lib self) w = Inr ms) \<and>
   (\<exists>v. result (generate_response lib self prompt model sp t mt) w = Inr v) \<and>
   (\<exists>v. result (generate_with_personality lib self prompt pp model) w = Inr v) \<and>
   (\<exists>v. result (generate_simple lib self prompt model) w = Inr v) \<and>
   (\<exists>v. result (chat_with_history lib self messages model t) w = Inr v) \<and>
   (\<exists>b. result (pull_model_if_needed lib self m) w = Inr b) \<and>
   (isl (client_list lib) \<longrightarrow>
      result (test_connection lib self) w = Inr False \<and>
      result (list_models lib self) w = Inr []) \<and>
   (isl (client_chat lib (py_or model (model_name self)) (PList (build_messages prompt sp))
          (PDict [(''temperature'', t), (''num_predict'', mt)])) \<longrightarrow>
      result (generate_response lib self prompt model sp t mt) w = Inr PNone) \<and>
   (isl (client_chat lib (py_or model (model_name self))
          (PList (build_messages prompt (Some pp)))
          (PDict [(''temperature'', PFloat 0.8), (''num_predict'', default_max_tokens)])) \<longrightarrow>
      result (generate_with_personality lib self prompt pp model) w = Inr PNone) \<and>
   (isl (client_generate lib (py_or model (model_name self)) prompt) \<longrightarrow>
      result (generate_simple lib self prompt model) w = Inr PNone) \<and>
   (isl (client_chat lib (py_or model (model_name self)) messages
          (PDict [(''temperature'', t)])) \<longrightarrow>
      result (chat_with_history lib self messages model t) w = Inr PNone) \<and>
   (isl (client_pull lib m) \<and>
    Pull_call m \<in> set (issued (pull_model_if_needed lib self m) w) \<longrightarrow>
      result (pull_model_if_needed lib self m) w = Inr False)"
  using test_connection_returns [of lib self w] list_models_returns [of lib self w]
    generate_response_returns [of lib self prompt model sp t mt w]
    generate_response_returns [of lib self prompt model "Some pp" "PFloat 0.8"
      default_max_tokens w]
    generate_simple_returns [of lib self prompt model w]
    chat_with_history_returns [of lib self messages model t w]
    pull_model_if_needed_returns [of lib self m w]
    test_connection_down [of lib self w] list_models_down [of lib self w]
    generate_response_down [of lib model self prompt sp t mt w]
    generate_response_down [of lib model self prompt "Some pp" "PFloat 0.8"
      default_max_tokens w]
    generate_simple_down [of lib model self prompt w]
    chat_with_history_down [of lib model self messages t w]
    pull_model_if_needed_down [of lib m self w]
  unfolding generate_with_personality_def by blast

theorem facade_no_exception_escapes_witness:
  "isl (client_list lib_down) \<and>
   isl (client_chat lib_down ''gemma3:27b'' (PList (build_messages ''hi'' None))
          (PDict [(''temperature'', default_temperature),
                  (''num_predict'', default_max_tokens)])) \<and>
   isl (client_generate lib_down ''gemma3:27b'' ''hi'') \<and>
   isl (client_pull lib_down ''phi3'') \<and>
   Pull_call ''phi3'' \<in> set (issued (pull_model_if_needed lib_down example_client ''phi3'')
      module_loaded) \<and>
   result (test_connection lib_down example_client) module_loaded = Inr False \<and>
   result (list_models lib_down example_client) module_loaded = Inr [] \<and>
   result (generate_response lib_down example_client ''hi'' None None default_temperature
      default_max_tokens) module_loaded = Inr PNone \<and>
   result (generate_with_personality lib_down example_client ''hi'' ''be kind'' None)
      module_loaded = Inr PNone \<and>
   result (generate_simple lib_down example_client ''hi'' None) module_loaded = Inr PNone \<and>
   result (chat_with_history lib_down example_client conversation None default_temperature)
      module_loaded = Inr PNone \<and>
   result (pull_model_if_needed lib_down example_client ''phi3'') module_loaded = Inr False"
proof -
  have down: "isl (client_list lib_down)" "isl (client_generate lib_down ''gemma3:27b'' ''hi'')"
    "isl (client_pull lib_down ''phi3'')" "\<And>a b c. isl (client_chat lib_down a b c)"
    by (simp_all add: lib_down_def)
  have pulled: "Pull_call ''phi3'' \<in>
      set (issued (pull_model_if_needed lib_down example_client ''phi3'') module_loaded)"
    by (simp add: pull_model_if_needed_def list_models_def run_defs example_defs)
  have name: "model_name example_client = ''gemma3:27b''"
    by (simp add: example_client_def)
  show ?thesis
    using down pulled
      facade_no_exception_escapes [where lib = lib_down and self = example_client
        and w = module_loaded and prompt = "''hi''" and model = None and sp = None
        and t = default_temperature and mt = default_max_tokens and pp = "''be kind''"
        and messages = conversation and m = "''phi3''"]
    by (simp add: name)
qed

section \<open>Listing the models\<close>

lemma process_model_returns: "\<exists>v. process_model m = Inr v"
  by (cases m) (auto simp: process_model_def split: option.splits)

lemma process_models_map:
  "process_models ms acc = Inr (acc @ map (\<lambda>m. projr (process_model m)) ms)"
proof (induction ms arbitrary: acc)
  case Nil
  show ?case by simp
next
  case (Cons m ms)
  obtain v where v: "process_model m = Inr v"
    using process_model_returns by blast
  show ?case by (simp add: v Cons.IH)
qed

lemma list_models_result:
  assumes "client_list lib = Inr response"
    and "py_get response ''models'' (PList []) = Inr models"
    and "py_iter models = Inr entries"
  shows "result (list_models lib self) w = Inr (map (\<lambda>m. projr (process_model m)) entries)"
  using assms by (simp add: list_models_def run_defs process_models_map)

lemma list_models_issued: "issued (list_models lib self) w = [List_call]"
  by (simp add: issued_def list_models_calls)

text \<open>
  Claim C2, as stated, fails: a structured entry that has only the attribute \<open>name\<close>
  has no attribute \<open>model\<close>, so \<open>list_models\<close> passes it through as it is and builds
  no mapping with defaults.
\<close>

theorem list_models_name_only_counterexample:
  "result (list_models lib_name_only example_client) module_loaded
     = Inr [PObj [(''name'', PStr ''llama3'')]] \<and>
   result (list_models lib_name_only example_client) module_loaded
     \<noteq> Inr [PDict [(''name'', PStr ''llama3''), (''size'', PInt 0), (''modified_at'', PNone),
               (''digest'', PStr []), (''details'', PDict [])]]"
  by (simp add: list_models_def process_model_def run_defs example_defs)

text \<open>
  Claim C2, amended. When the reply of the server holds a list of entries under
  \<open>models\<close>, \<open>list_models\<close> returns one value for each entry, in order: for a
  structured entry with only the attribute \<open>model\<close> set, the mapping with \<open>name\<close>
  equal to that attribute and the defaults \<open>size = 0\<close>, \<open>modified_at = None\<close>,
  \<open>digest = ''\<close>, \<open>details = {}\<close>; for an entry that is a mapping, the entry unchanged.
\<close>

theorem list_models_normalises:
  assumes "client_list lib = Inr response"
    and "py_get response ''models'' (PList []) = Inr (PList entries)"
  shows "\<exists>out. result (list_models lib self) w = Inr out \<and> length out = length entries \<and>
     (\<forall>i < length entries.
        (\<forall>n. entries ! i = PObj [(''model'', n)] \<longrightarrow>
           out ! i = PDict [(''name'', n), (''size'', PInt 0), (''modified_at'', PNone),
                            (''digest'', PStr []), (''details'', PDict [])]) \<and>
        (\<forall>d. entries ! i = PDict d \<longrightarrow> out ! i = entries ! i))"
proof -
  have r: "result (list_models lib self) w = Inr (map (\<lambda>m. projr (process_model m)) entries)"
    by (rule list_models_result [OF assms(1) assms(2)]) simp
  show ?thesis unfolding r by (simp add: process_model_def)
qed

theorem list_models_normalises_witness:
  "client_list lib_up = Inr (PDict [(''models'',
      PList [PObj [(''model'', PStr ''llama3'')], PDict [(''name'', PStr ''phi3'')]])]) \<and>
   py_get (PDict [(''models'',
      PList [PObj [(''model'', PStr ''llama3'')], PDict [(''name'', PStr ''phi3'')]])])
      ''models'' (PList [])
     = Inr (PList [PObj [(''model'', PStr ''llama3'')], PDict [(''name'', PStr ''phi3'')]]) \<and>
   result (list_models lib_up example_client) module_loaded =
     Inr [PDict [(''name'', PStr ''llama3''), (''size'', PInt 0), (''modified_at'', PNone),
                 (''digest'', PStr []), (''details'', PDict [])],
          PDict [(''name'', PStr ''phi3'')]]"
proof -
  let ?e0 = "PObj [(''model'', PStr ''llama3'')]"
  let ?e1 = "PDict [(''name'', PStr ''phi3'')]"
  let ?response = "PDict [(''models'', PList [?e0, ?e1])]"
  have h1: "client_list lib_up = Inr ?response"
    by (simp add: lib_up_def)
  have h2: "py_get ?response ''models'' (PList []) = Inr (PList [?e0, ?e1])"
    by simp
  obtain out where out: "result (list_models lib_up example_client) module_loaded = Inr out"
    and len: "length out = length [?e0, ?e1]"
    and each: "\<forall>i < length [?e0, ?e1].
        (\<forall>n. [?e0, ?e1] ! i = PObj [(''model'', n)] \<longrightarrow>
           out ! i = PDict [(''name'', n), (''size'', PInt 0), (''modified_at'', PNone),
                            (''digest'', PStr []), (''details'', PDict [])]) \<and>
        (\<forall>d. [?e0, ?e1] ! i = PDict d \<longrightarrow> out ! i = [?e0, ?e1] ! i)"
    using list_models_normalises [OF h1 h2, of example_client module_loaded] by blast
  obtain a b where ab: "out = [a, b]"
    using len by (cases out; cases "tl out") auto
  have "a = PDict [(''name'', PStr ''llama3''), (''size'', PInt 0), (''modified_at'', PNone),
                   (''digest'', PStr []), (''details'', PDict [])]"
    using each [rule_format, of 0] by (simp add: ab)
  moreover have "b = ?e1"
    using each [rule_format, of 1] by (simp add: ab)
  ultimately show ?thesis using h1 h2 out ab by simp
qed

section \<open>Generation with a personality\<close>

lemma generate_response_issued:
  "issued (generate_response lib self prompt model sp t mt) w =
     [Chat_call (py_or model (model_name self)) (PList (build_messages prompt sp))
        (PDict [(''temperature'', t), (''num_predict'', mt)])]"
  by (auto simp: generate_response_def Let_def run_defs
      split: sum.splits prod.splits exn.splits)

text \<open>
  Claim C3. \<open>generate_with_personality\<close> takes a prompt, a personality prompt and an
  optional model, and no temperature. It is \<open>generate_response\<close> with the personality
  prompt as system prompt, the temperature \<open>0.8\<close> and the default token limit; the one
  request it issues is a chat request whose options carry the temperature \<open>0.8\<close>, which
  is not the default \<open>0.7\<close> of \<open>generate_response\<close>.
\<close>

theorem generate_with_personality_fixed_temperature:
  "generate_with_personality lib self prompt personality_prompt model =
     generate_response lib self prompt model (Some personality_prompt) (PFloat 0.8)
       default_max_tokens \<and>
   issued (generate_with_personality lib self prompt personality_prompt model) w =
     [Chat_call (py_or model (model_name self))
        (PList (build_messages prompt (Some personality_prompt)))
        (PDict [(''temperature'', PFloat 0.8), (''num_predict'', PInt 1000)])] \<and>
   PFloat 0.8 \<noteq> default_temperature"
  by (simp add: generate_with_personality_def generate_response_issued
      default_max_tokens_def default_temperature_def)

section \<open>Chat with a history\<close>

lemma chat_with_history_issued:
  "issued (chat_with_history lib self messages model t) w =
     [Chat_call (py_or model (model_name self)) messages (PDict [(''temperature'', t)])]"
  by (auto simp: chat_with_history_def Let_def run_defs
      split: sum.splits prod.splits exn.splits)

lemma chat_with_history_reply:
  assumes "client_chat lib (py_or model (model_name self)) messages
             (PDict [(''temperature'', t)]) = Inr response"
    and "py_getitem response ''message'' = Inr msg"
    and "py_getitem msg ''content'' = Inr text"
  shows "result (chat_with_history lib self messages model t) w = Inr text"
  using assms by (simp add: chat_with_history_def Let_def run_defs)

text \<open>
  Claim C4. For every message sequence, \<open>chat_with_history\<close> issues one request, the
  chat call whose \<open>messages\<close> argument is that sequence as it was given. It returns
  the \<open>content\<close> of the \<open>message\<close> of the reply, and \<open>None\<close> when the call raises.
\<close>

theorem chat_with_history_forwards:
  "issued (chat_with_history lib self messages model t) w =
     [Chat_call (py_or model (model_name self)) messages (PDict [(''temperature'', t)])] \<and>
   (\<forall>response msg text.
      client_chat lib (py_or model (model_name self)) messages
        (PDict [(''temperature'', t)]) = Inr response \<and>
      py_getitem response ''message'' = Inr msg \<and> py_getitem msg ''content'' = Inr text \<longrightarrow>
      result (chat_with_history lib self messages model t) w = Inr text) \<and>
   (isl (client_chat lib (py_or model (model_name self)) messages
          (PDict [(''temperature'', t)])) \<longrightarrow>
      result (chat_with_history lib self messages model t) w = Inr PNone)"
  using chat_with_history_issued [of lib self messages model t w]
    chat_with_history_reply [of lib model self messages t _ _ _ w]
    chat_with_history_down [of lib model self messages t w]
  by blast

theorem chat_with_history_forwards_witness:
  "client_chat lib_up ''gemma3:27b'' conversation (PDict [(''temperature'', PFloat 0.7)])
     = Inr example_reply \<and>
   py_getitem example_reply ''message''
     = Inr (PDict [(''role'', PStr ''assistant''), (''content'', PStr ''hello'')]) \<and>
   py_getitem (PDict [(''role'', PStr ''assistant''), (''content'', PStr ''hello'')]) ''content''
     = Inr (PStr ''hello'') \<and>
   issued (chat_with_history lib_up example_client conversation None (PFloat 0.7))
     module_loaded
     = [Chat_call ''gemma3:27b'' conversation (PDict [(''temperature'', PFloat 0.7)])] \<and>
   result (chat_with_history lib_up example_client conversation None (PFloat 0.7))
     module_loaded = Inr (PStr ''hello'') \<and>
   isl (client_chat lib_down ''gemma3:27b'' conversation (PDict [(''temperature'', PFloat 0.7)])) \<and>
   result (chat_with_history lib_down example_client conversation None (PFloat 0.7))
     module_loaded = Inr PNone"
proof -
  have name: "model_name example_client = ''gemma3:27b''"
    by (simp add: example_client_def)
  have h1: "client_chat lib_up ''gemma3:27b'' conversation
      (PDict [(''temperature'', PFloat 0.7)]) = Inr example_reply"
    by (simp add: lib_up_def)
  have h2: "py_getitem example_reply ''message''
      = Inr (PDict [(''role'', PStr ''assistant''), (''content'', PStr ''hello'')])"
    by (simp add: example_reply_def)
  have h3: "py_getitem (PDict [(''role'', PStr ''assistant''), (''content'', PStr ''hello'')])
      ''content'' = Inr (PStr ''hello'')"
    by simp
  have h4: "isl (client_chat lib_down ''gemma3:27b'' conversation
      (PDict [(''temperature'', PFloat 0.7)]))"
    by (simp add: lib_down_def)
  show ?thesis
    using h1 h2 h3 h4
      chat_with_history_forwards [where lib = lib_up and self = example_client
        and messages = conversation and model = None and t = "PFloat 0.7"
        and w = module_loaded]
      chat_with_history_forwards [where lib = lib_down and self = example_client
        and messages = conversation and model = None and t = "PFloat 0.7"
        and w = module_loaded]
    by (simp add: name)
qed

section \<open>Pulling a model\<close>

lemma pull_model_if_needed_present:
  assumes "result (list_models lib self) w = Inr models"
    and "model_names_of models = Inr names"
    and "PStr m \<in> set names"
  shows "result (pull_model_if_needed lib self m) w = Inr True \<and>
    issued (pull_model_if_needed lib self m) w = [List_call]"
proof -
  obtain w' where lm: "list_models lib self w = (Inr models, w')"
    using assms(1) by (cases "list_models lib self w") (simp add: result_def)
  have c: "calls w' = calls w @ [List_call]"
    using list_models_calls [of lib self w] lm by simp
  show ?thesis
    using assms(2,3) lm c
    by (simp add: pull_model_if_needed_def py_bind_def try_except_def lift_def
        logger_info_def ret_def result_def issued_def)
qed

lemma pull_model_if_needed_absent:
  assumes "result (list_models lib self) w = Inr models"
    and "model_names_of models = Inr names"
    and "PStr m \<notin> set names"
  shows "issued (pull_model_if_needed lib self m) w = [List_call, Pull_call m] \<and>
    result (pull_model_if_needed lib self m) w =
      Inr (case client_pull lib m of Inl e \<Rightarrow> False | Inr r \<Rightarrow> True)"
proof -
  obtain w' where lm: "list_models lib self w = (Inr models, w')"
    using assms(1) by (cases "list_models lib self w") (simp add: result_def)
  have c: "calls w' = calls w @ [List_call]"
    using list_models_calls [of lib self w] lm by simp
  show ?thesis
    using assms(2,3) lm c
    by (cases "client_pull lib m")
      (simp_all add: pull_model_if_needed_def py_bind_def try_except_def lift_def
        logger_info_def logger_error_def client_call_def ret_def result_def issued_def)
qed

text \<open>
  Claim C5. Let \<open>names\<close> be the model-name list that \<open>pull_model_if_needed\<close> reads off
  the output of \<open>list_models\<close>. If the model is in \<open>names\<close>, the method returns
  \<open>True\<close> and the only request it issues is the list call: no pull. If the model is
  not in \<open>names\<close>, it issues the list call and then the pull of that model, and returns
  \<open>True\<close> when the pull returns and \<open>False\<close> when it raises.
\<close>

theorem pull_model_if_needed_membership:
  assumes "result (list_models lib self) w = Inr models"
    and "model_names_of models = Inr names"
  shows "(PStr m \<in> set names \<longrightarrow>
            result (pull_model_if_needed lib self m) w = Inr True \<and>
            issued (pull_model_if_needed lib self m) w = [List_call]) \<and>
         (PStr m \<notin> set names \<longrightarrow>
            issued (pull_model_if_needed lib self m) w = [List_call, Pull_call m] \<and>
            result (pull_model_if_needed lib self m) w =
              Inr (case client_pull lib m of Inl e \<Rightarrow> False | Inr r \<Rightarrow> True))"
  using pull_model_if_needed_present [OF assms] pull_model_if_needed_absent [OF assms]
  by blast

theorem pull_model_if_needed_membership_witness:
  "result (list_models lib_up example_client) module_loaded =
     Inr [PDict [(''name'', PStr ''llama3''), (''size'', PInt 0), (''modified_at'', PNone),
                 (''digest'', PStr []), (''details'', PDict [])],
          PDict [(''name'', PStr ''phi3'')]] \<and>
   model_names_of
     [PDict [(''name'', PStr ''llama3''), (''size'', PInt 0), (''modified_at'', PNone),
             (''digest'', PStr []), (''details'', PDict [])],
      PDict [(''name'', PStr ''phi3'')]] = Inr [PStr ''llama3'', PStr ''phi3''] \<and>
   PStr ''phi3'' \<in> set [PStr ''llama3'', PStr ''phi3''] \<and>
   result (pull_model_if_needed lib_up example_client ''phi3'') module_loaded = Inr True \<and>
   issued (pull_model_if_needed lib_up example_client ''phi3'') module_loaded = [List_call] \<and>
   PStr ''gemma3:1b'' \<notin> set [PStr ''llama3'', PStr ''phi3''] \<and>
   issued (pull_model_if_needed lib_up example_client ''gemma3:1b'') module_loaded
     = [List_call, Pull_call ''gemma3:1b''] \<and>
   result (pull_model_if_needed lib_up example_client ''gemma3:1b'') module_loaded = Inr True \<and>
   result (pull_model_if_needed (lib_up\<lparr>client_pull := \<lambda>m. Inl (OtherException ''timeout'')\<rparr>)
     example_client ''gemma3:1b'') module_loaded = Inr False"
proof -
  let ?models = "[PDict [(''name'', PStr ''llama3''), (''size'', PInt 0),
      (''modified_at'', PNone), (''digest'', PStr []), (''details'', PDict [])],
    PDict [(''name'', PStr ''phi3'')]]"
  let ?slow = "lib_up\<lparr>client_pull := \<lambda>m. Inl (OtherException ''timeout'')\<rparr>"
  have h1: "result (list_models lib_up example_client) module_loaded = Inr ?models"
    by (simp add: list_models_def process_model_def run_defs example_defs)
  have h1': "result (list_models ?slow example_client) module_loaded = Inr ?models"
    by (simp add: list_models_def process_model_def run_defs example_defs)
  have h2: "model_names_of ?models = Inr [PStr ''llama3'', PStr ''phi3'']"
    by simp
  have pull_up: "client_pull lib_up ''gemma3:1b'' = Inr (PDict [(''status'', PStr ''success'')])"
    by (simp add: lib_up_def)
  have pull_slow: "client_pull ?slow ''gemma3:1b'' = Inl (OtherException ''timeout'')"
    by simp
  show ?thesis
    using h1 h2 pull_up pull_slow
      pull_model_if_needed_membership [OF h1 h2, of "''phi3''"]
      pull_model_if_needed_membership [OF h1 h2, of "''gemma3:1b''"]
      pull_model_if_needed_membership [OF h1' h2, of "''gemma3:1b''"]
    by simp
qed

section \<open>The structured response error\<close>

lemma generate_response_response_error:
  assumes "client_chat lib (py_or model (model_name self)) (PList (build_messages prompt sp))
             (PDict [(''temperature'', t), (''num_predict'', mt)])
           = Inl (ResponseError err code)"
  shows "result (generate_response lib self prompt model sp t mt) w = Inr PNone \<and>
    logged (generate_response lib self prompt model sp t mt) w =
      [Log ERROR Msg_response_error [Str_arg err, Int_arg code]]"
  using assms by (simp add: generate_response_def Let_def run_defs)

lemma generate_simple_response_error:
  assumes "client_generate lib (py_or model (model_name self)) prompt
           = Inl (ResponseError err code)"
  shows "result (generate_simple lib self prompt model) w = Inr PNone \<and>
    logged (generate_simple lib self prompt model) w =
      [Log ERROR Msg_response_error [Str_arg err, Int_arg code]]"
  using assms by (simp add: generate_simple_def Let_def run_defs)

lemma chat_with_history_response_error:
  assumes "client_chat lib (py_or model (model_name self)) messages
             (PDict [(''temperature'', t)]) = Inl (ResponseError err code)"
  shows "result (chat_with_history lib self messages model t) w = Inr PNone \<and>
    logged (chat_with_history lib self messages model t) w =
      [Log ERROR Msg_chat_response_error [Str_arg err]]"
  using assms by (simp add: chat_with_history_def Let_def run_defs)

text \<open>
  Claim C6 on the code. Against a server whose chat call raises the structured error
  \<open>model not found\<close> with status code 404, \<open>chat_with_history\<close> returns \<open>None\<close> and
  logs one error record that holds the error message and no status code, while
  \<open>generate_response\<close>, on the same server, logs the message and the status code.
\<close>

theorem chat_with_history_omits_status_code:
  "result (chat_with_history lib_404 example_client conversation None default_temperature)
     module_loaded = Inr PNone \<and>
   logged (chat_with_history lib_404 example_client conversation None default_temperature)
     module_loaded = [Log ERROR Msg_chat_response_error [Str_arg ''model not found'']] \<and>
   logged (generate_response lib_404 example_client ''hi'' None None default_temperature
     default_max_tokens) module_loaded
     = [Log ERROR Msg_response_error [Str_arg ''model not found'', Int_arg 404]]"
  by (simp add: chat_with_history_def generate_response_def Let_def run_defs example_defs)

section \<open>The request of \<open>generate_response\<close>\<close>

lemma build_messages_eq:
  "build_messages prompt sp =
     (case sp of
        None \<Rightarrow> []
      | Some s \<Rightarrow> if s \<noteq> [] then [PDict [(''role'', PStr ''system''), (''content'', PStr s)]]
                 else [])
     @ [PDict [(''role'', PStr ''user''), (''content'', PStr prompt)]]"
  by (simp add: build_messages_def message_def split: option.splits)

lemma generate_response_reply:
  assumes "client_chat lib (py_or model (model_name self)) (PList (build_messages prompt sp))
             (PDict [(''temperature'', t), (''num_predict'', mt)]) = Inr response"
    and "py_getitem response ''message'' = Inr msg"
    and "py_getitem msg ''content'' = Inr text"
  shows "result (generate_response lib self prompt model sp t mt) w = Inr text"
  using assms by (simp add: generate_response_def Let_def run_defs)

text \<open>
  Claim C7, as stated, fails: a system prompt that is given as the empty string is not
  prepended. The request then holds the user message alone, not the two messages of
  \<open>spec_build_messages\<close>.
\<close>

theorem generate_response_empty_system_prompt_counterexample:
  "issued (generate_response lib_up example_client ''hi'' None (Some []) default_temperature
     default_max_tokens) module_loaded
     = [Chat_call ''gemma3:27b'' (PList [PDict [(''role'', PStr ''user''), (''content'', PStr ''hi'')]])
          (PDict [(''temperature'', PFloat 0.7), (''num_predict'', PInt 1000)])] \<and>
   issued (generate_response lib_up example_client ''hi'' None (Some []) default_temperature
     default_max_tokens) module_loaded
     \<noteq> [Chat_call ''gemma3:27b'' (PList (spec_build_messages ''hi'' (Some [])))
          (PDict [(''temperature'', PFloat 0.7), (''num_predict'', PInt 1000)])]"
  by (simp add: generate_response_issued build_messages_def spec_build_messages_def
      example_defs)

text \<open>
  Claim C7, amended. \<open>generate_response\<close> issues one request, the chat call whose
  messages are a system message with the system prompt, when one is given and is not
  the empty string, followed by a user message with the prompt, and whose options hold
  the temperature and the token limit exactly as they were passed. It returns the
  \<open>content\<close> of the \<open>message\<close> of the reply.
\<close>

theorem generate_response_request:
  "issued (generate_response lib self prompt model sp t mt) w =
     [Chat_call (py_or model (model_name self))
        (PList ((case sp of
                   None \<Rightarrow> []
                 | Some s \<Rightarrow> if s \<noteq> []
                            then [PDict [(''role'', PStr ''system''), (''content'', PStr s)]]
                            else [])
                @ [PDict [(''role'', PStr ''user''), (''content'', PStr prompt)]]))
        (PDict [(''temperature'', t), (''num_predict'', mt)])] \<and>
   (\<forall>response msg text.
      client_chat lib (py_or model (model_name self)) (PList (build_messages prompt sp))
        (PDict [(''temperature'', t), (''num_predict'', mt)]) = Inr response \<and>
      py_getitem response ''message'' = Inr msg \<and> py_getitem msg ''content'' = Inr text \<longrightarrow>
      result (generate_response lib self prompt model sp t mt) w = Inr text)"
  using generate_response_issued [of lib self prompt model sp t mt w]
    generate_response_reply [of lib model self prompt sp t mt _ _ _ w]
  unfolding build_messages_eq [symmetric] by blast

theorem generate_response_request_witness:
  "client_chat lib_up ''gemma3:27b'' (PList (build_messages ''hi'' (Some ''be kind'')))
     (PDict [(''temperature'', PFloat 0.5), (''num_predict'', PInt 100)]) = Inr example_reply \<and>
   py_getitem example_reply ''message''
     = Inr (PDict [(''role'', PStr ''assistant''), (''content'', PStr ''hello'')]) \<and>
   py_getitem (PDict [(''role'', PStr ''assistant''), (''content'', PStr ''hello'')]) ''content''
     = Inr (PStr ''hello'') \<and>
   issued (generate_response lib_up example_client ''hi'' None (Some ''be kind'') (PFloat 0.5)
     (PInt 100)) module_loaded
     = [Chat_call ''gemma3:27b''
          (PList [PDict [(''role'', PStr ''system''), (''content'', PStr ''be kind'')],
                  PDict [(''role'', PStr ''user''), (''content'', PStr ''hi'')]])
          (PDict [(''temperature'', PFloat 0.5), (''num_predict'', PInt 100)])] \<and>
   result (generate_response lib_up example_client ''hi'' None (Some ''be kind'') (PFloat 0.5)
     (PInt 100)) module_loaded = Inr (PStr ''hello'')"
proof -
  have name: "model_name example_client = ''gemma3:27b''"
    by (simp add: example_client_def)
  have h1: "client_chat lib_up ''gemma3:27b'' (PList (build_messages ''hi'' (Some ''be kind'')))
      (PDict [(''temperature'', PFloat 0.5), (''num_predict'', PInt 100)]) = Inr example_reply"
    by (simp add: lib_up_def)
  have h2: "py_getitem example_reply ''message''
      = Inr (PDict [(''role'', PStr ''assistant''), (''content'', PStr ''hello'')])"
    by (simp add: example_reply_def)
  have h3: "py_getitem (PDict [(''role'', PStr ''assistant''), (''content'', PStr ''hello'')])
      ''content'' = Inr (PStr ''hello'')"
    by simp
  show ?thesis
    using h1 h2 h3
      generate_response_request [where lib = lib_up and self = example_client
        and prompt = "''hi''" and model = None and sp = "Some ''be kind''"
        and t = "PFloat 0.5" and mt = "PInt 100" and w = module_loaded]
    by (simp add: name)
qed

section \<open>The two default models\<close>

lemma OllamaClient_init_config:
  assumes "result (OllamaClient_init env lib h m) w = Inr c"
  shows "model_name c = py_or m (getenv env ''MODEL_NAME'' ''gemma3:27b'') \<and>
    host c = py_or h (getenv env ''OLLAMA_HOST'' ''http://localhost:11434'')"
  using assms
  by (auto simp: OllamaClient_init_def new_object_def Let_def run_defs
      split: sum.splits prod.splits)

lemma generate_simple_issued:
  "issued (generate_simple lib self prompt model) w =
     [Generate_call (py_or model (model_name self)) prompt]"
  by (auto simp: generate_simple_def Let_def run_defs
      split: sum.splits prod.splits exn.splits)

lemma simple_chat_issued:
  "issued (simple_chat env lib msg model) w =
     [Module_chat_call
        (case model of None \<Rightarrow> getenv env ''MODEL_NAME'' ''gemma3:1b'' | Some m \<Rightarrow> m)
        (PList [message ''user'' msg])]"
  by (auto simp: simple_chat_def Let_def run_defs split: sum.splits prod.splits)

text \<open>
  Claim C8. With \<open>MODEL_NAME\<close> unset, a facade built without a model name has the
  default model \<open>gemma3:27b\<close> and sends its requests to it, while \<open>simple_chat\<close>
  without a model sends its request to \<open>gemma3:1b\<close>: two different identifiers, the
  one of \<open>simple_chat\<close> naming the 1b model and the one of the facade the 27b model.
\<close>

theorem default_models_differ:
  assumes "env ''MODEL_NAME'' = None"
  shows "(\<forall>c. result (OllamaClient_init env lib h None) w = Inr c \<longrightarrow>
            model_name c = ''gemma3:27b'' \<and>
            issued (generate_simple lib c prompt None) w1 = [Generate_call ''gemma3:27b'' prompt]) \<and>
         issued (simple_chat env lib msg None) w2 =
           [Module_chat_call ''gemma3:1b'' (PList [message ''user'' msg])] \<and>
         ''gemma3:27b'' \<noteq> ''gemma3:1b''"
  using assms
  by (auto simp: simple_chat_issued generate_simple_issued getenv_def
      dest: OllamaClient_init_config)

theorem default_models_differ_witness:
  "Map.empty ''MODEL_NAME'' = (None :: string option) \<and>
   result (OllamaClient_init Map.empty lib_up None None) module_loaded = Inr example_client \<and>
   model_name example_client = ''gemma3:27b'' \<and>
   issued (generate_simple lib_up example_client ''hi'' None) module_loaded
     = [Generate_call ''gemma3:27b'' ''hi''] \<and>
   issued (simple_chat Map.empty lib_up ''hi'' None) module_loaded
     = [Module_chat_call ''gemma3:1b'' (PList [message ''user'' ''hi''])]"
proof -
  have h: "Map.empty ''MODEL_NAME'' = (None :: string option)"
    by simp
  have c: "result (OllamaClient_init Map.empty lib_up None None) module_loaded
      = Inr example_client"
    by (simp add: OllamaClient_init_def new_object_def getenv_def Let_def run_defs
        example_defs)
  show ?thesis
    using h c
      default_models_differ [OF h, where lib = lib_up and h = None and w = module_loaded
        and prompt = "''hi''" and ?w1.0 = module_loaded and msg = "''hi''"
        and ?w2.0 = module_loaded]
    by simp
qed

section \<open>The singleton accessor\<close>

lemma keeps_ret: "keeps_global (ret x)"
  by (simp add: keeps_global_def ret_def)

lemma keeps_lift: "keeps_global (lift r)"
  by (simp add: keeps_global_def lift_def)

lemma keeps_client_call: "keeps_global (client_call c r)"
  by (simp add: keeps_global_def client_call_def)

lemma keeps_logger_info: "keeps_global (logger_info t a)"
  by (simp add: keeps_global_def logger_info_def)

lemma keeps_logger_error: "keeps_global (logger_error t a)"
  by (simp add: keeps_global_def logger_error_def)

lemma keeps_new_object: "keeps_global new_object"
  by (simp add: keeps_global_def new_object_def)

lemma keeps_bind:
  assumes "keeps_global m" and "\<And>x. keeps_global (f x)"
  shows "keeps_global (py_bind m f)"
  unfolding keeps_global_def
proof
  fix w
  show "ollama_client_global (snd (py_bind m f w)) = ollama_client_global w"
  proof (cases "m w")
    case (Pair r w')
    have w': "ollama_client_global w' = ollama_client_global w"
      using assms(1) Pair by (auto simp: keeps_global_def dest: spec [of _ w])
    show ?thesis
    proof (cases r)
      case (Inl e)
      then show ?thesis by (simp add: py_bind_def Pair w')
    next
      case (Inr x)
      have "ollama_client_global (snd (f x w')) = ollama_client_global w'"
        using assms(2) [of x] by (simp add: keeps_global_def)
      then show ?thesis by (simp add: py_bind_def Pair Inr w')
    qed
  qed
qed

lemma keeps_try_except:
  assumes "keeps_global m" and "\<And>e. keeps_global (h e)"
  shows "keeps_global (try_except m h)"
  unfolding keeps_global_def
proof
  fix w
  show "ollama_client_global (snd (try_except m h w)) = ollama_client_global w"
  proof (cases "m w")
    case (Pair r w')
    have w': "ollama_client_global w' = ollama_client_global w"
      using assms(1) Pair by (auto simp: keeps_global_def dest: spec [of _ w])
    show ?thesis
    proof (cases r)
      case (Inl e)
      have "ollama_client_global (snd (h e w')) = ollama_client_global w'"
        using assms(2) [of e] by (simp add: keeps_global_def)
      then show ?thesis by (simp add: try_except_def Pair Inl w')
    next
      case (Inr x)
      then show ?thesis by (simp add: try_except_def Pair w')
    qed
  qed
qed

lemma keeps_if: "keeps_global a \<Longrightarrow> keeps_global b \<Longrightarrow> keeps_global (if c then a else b)"
  by simp

lemma keeps_handler:
  "keeps_global (case e of
      ResponseError err code \<Rightarrow> py_bind (logger_error t1 (a1 err code)) (\<lambda>u. ret v)
    | _ \<Rightarrow> py_bind (logger_error t2 a2) (\<lambda>u. ret v))"
  by (cases e) (simp_all add: keeps_bind keeps_logger_error keeps_ret)

lemmas keeps_intros = keeps_try_except keeps_bind keeps_if keeps_ret keeps_lift
  keeps_client_call keeps_logger_info keeps_logger_error keeps_new_object keeps_handler

lemma keeps_test_connection: "keeps_global (test_connection lib self)"
  unfolding test_connection_def by (intro keeps_intros)

lemma keeps_list_models: "keeps_global (list_models lib self)"
  unfolding list_models_def by (intro keeps_intros)

lemma keeps_generate_response: "keeps_global (generate_response lib self p m sp t mt)"
  unfolding generate_response_def Let_def by (intro keeps_intros)

lemma keeps_generate_simple: "keeps_global (generate_simple lib self p m)"
  unfolding generate_simple_def Let_def by (intro keeps_intros)

lemma keeps_chat_with_history: "keeps_global (chat_with_history lib self ms m t)"
  unfolding chat_with_history_def Let_def by (intro keeps_intros)

lemma keeps_pull_model_if_needed: "keeps_global (pull_model_if_needed lib self m)"
  unfolding pull_model_if_needed_def by (intro keeps_intros keeps_list_models)

lemma keeps_simple_chat: "keeps_global (simple_chat env lib msg m)"
  unfolding simple_chat_def Let_def by (intro keeps_intros)

lemma keeps_OllamaClient_init: "keeps_global (OllamaClient_init env lib h m)"
  unfolding OllamaClient_init_def Let_def by (intro keeps_intros)

lemma get_ollama_client_stored:
  "ollama_client_global w = Some c \<Longrightarrow> get_ollama_client env lib w = (Inr c, w)"
  by (simp add: get_ollama_client_def)

lemma get_ollama_client_first:
  assumes "ollama_client_global w = None"
    and "new_client lib (getenv env ''OLLAMA_HOST'' ''http://localhost:11434'') = Inr ()"
  shows "\<exists>c w'. get_ollama_client env lib w = (Inr c, w') \<and>
     ollama_client_global w' = Some c \<and> oid c = next_oid w \<and>
     issued (get_ollama_client env lib) w
       = [New_client (getenv env ''OLLAMA_HOST'' ''http://localhost:11434'')]"
  using assms
  by (simp add: get_ollama_client_def OllamaClient_init_def new_object_def Let_def run_defs)

lemma run_op_stored:
  assumes "ollama_client_global w = Some c"
  shows "ollama_client_global (run_op env lib op w) = Some c"
proof (cases op)
  case Get_ollama_client
  then show ?thesis using assms by (simp add: get_ollama_client_stored)
next
  case (New_OllamaClient h m)
  then show ?thesis
    using assms keeps_OllamaClient_init [of env lib h m] by (simp add: keeps_global_def)
next
  case (Test_connection self)
  then show ?thesis
    using assms keeps_test_connection [of lib self] by (simp add: keeps_global_def)
next
  case (List_models self)
  then show ?thesis
    using assms keeps_list_models [of lib self] by (simp add: keeps_global_def)
next
  case (Generate_response self p m sp t mt)
  then show ?thesis
    using assms keeps_generate_response [of lib self p m sp t mt]
    by (simp add: keeps_global_def)
next
  case (Generate_with_personality self p pp m)
  then show ?thesis
    using assms keeps_generate_response [of lib self p m "Some pp" "PFloat 0.8"]
    by (simp add: keeps_global_def generate_with_personality_def)
next
  case (Generate_simple self p m)
  then show ?thesis
    using assms keeps_generate_simple [of lib self p m] by (simp add: keeps_global_def)
next
  case (Chat_with_history self ms m t)
  then show ?thesis
    using assms keeps_chat_with_history [of lib self ms m t] by (simp add: keeps_global_def)
next
  case (Pull_model_if_needed self m)
  then show ?thesis
    using assms keeps_pull_model_if_needed [of lib self m] by (simp add: keeps_global_def)
next
  case (Simple_chat msg m)
  then show ?thesis
    using assms keeps_simple_chat [of env lib msg m] by (simp add: keeps_global_def)
qed

lemma run_ops_stored:
  "ollama_client_global w = Some c \<Longrightarrow> ollama_client_global (run_ops env lib ops w) = Some c"
  by (induction ops arbitrary: w) (simp_all add: run_op_stored)

text \<open>
  Claim C9. When no instance is stored and the library builds its client, the call of
  \<open>get_ollama_client\<close> constructs one facade (one client is built), stores it and
  returns it. When an instance is stored, the call returns that instance and changes
  nothing: it constructs nothing. No operation of the module resets the stored
  instance: after any sequence of operations of the module it is still stored, and the
  next call of \<open>get_ollama_client\<close> returns it and changes nothing.
\<close>

theorem get_ollama_client_singleton:
  "(ollama_client_global w = None \<and>
    new_client lib (getenv env ''OLLAMA_HOST'' ''http://localhost:11434'') = Inr () \<longrightarrow>
      (\<exists>c' w'. get_ollama_client env lib w = (Inr c', w') \<and>
         ollama_client_global w' = Some c' \<and> oid c' = next_oid w \<and>
         issued (get_ollama_client env lib) w
           = [New_client (getenv env ''OLLAMA_HOST'' ''http://localhost:11434'')])) \<and>
   (ollama_client_global w = Some c \<longrightarrow>
      get_ollama_client env lib w = (Inr c, w) \<and>
      (\<forall>ops. ollama_client_global (run_ops env lib ops w) = Some c \<and>
         get_ollama_client env lib (run_ops env lib ops w)
           = (Inr c, run_ops env lib ops w)))"
  using get_ollama_client_first [of w lib env] get_ollama_client_stored [of _ c env lib]
    run_ops_stored [of w c env lib]
  by blast

theorem get_ollama_client_singleton_witness:
  "ollama_client_global module_loaded = None \<and>
   new_client lib_up (getenv Map.empty ''OLLAMA_HOST'' ''http://localhost:11434'') = Inr () \<and>
   result (get_ollama_client Map.empty lib_up) module_loaded = Inr example_client \<and>
   ollama_client_global (snd (get_ollama_client Map.empty lib_up module_loaded))
     = Some example_client \<and>
   issued (get_ollama_client Map.empty lib_up) module_loaded
     = [New_client ''http://localhost:11434''] \<and>
   get_ollama_client Map.empty lib_up (snd (get_ollama_client Map.empty lib_up module_loaded))
     = (Inr example_client, snd (get_ollama_client Map.empty lib_up module_loaded)) \<and>
   result (get_ollama_client Map.empty lib_up)
     (run_ops Map.empty lib_up
        [Get_ollama_client, Test_connection example_client, Simple_chat ''hi'' None,
         Get_ollama_client]
        (snd (get_ollama_client Map.empty lib_up module_loaded)))
     = Inr example_client"
proof -
  let ?w1 = "snd (get_ollama_client Map.empty lib_up module_loaded)"
  let ?ops = "[Get_ollama_client, Test_connection example_client, Simple_chat ''hi'' None,
    Get_ollama_client]"
  have h1: "ollama_client_global module_loaded = None"
    by (simp add: module_loaded_def)
  have h2: "new_client lib_up (getenv Map.empty ''OLLAMA_HOST'' ''http://localhost:11434'')
      = Inr ()"
    by (simp add: lib_up_def)
  have first: "result (get_ollama_client Map.empty lib_up) module_loaded = Inr example_client"
    by (simp add: get_ollama_client_def OllamaClient_init_def new_object_def getenv_def
        Let_def run_defs example_defs)
  have h3: "ollama_client_global ?w1 = Some example_client"
    by (simp add: get_ollama_client_def OllamaClient_init_def new_object_def getenv_def
        Let_def run_defs example_defs)
  have host: "getenv Map.empty ''OLLAMA_HOST'' ''http://localhost:11434''
      = ''http://localhost:11434''"
    by (simp add: getenv_def)
  from get_ollama_client_singleton [where w = module_loaded and lib = lib_up
      and env = Map.empty and c = example_client] h1 h2
  have a: "issued (get_ollama_client Map.empty lib_up) module_loaded
      = [New_client ''http://localhost:11434'']"
    by (auto simp add: host)
  from get_ollama_client_singleton [where w = ?w1 and lib = lib_up
      and env = Map.empty and c = example_client] h3
  have b: "get_ollama_client Map.empty lib_up ?w1 = (Inr example_client, ?w1)"
    and c: "get_ollama_client Map.empty lib_up (run_ops Map.empty lib_up ?ops ?w1)
      = (Inr example_client, run_ops Map.empty lib_up ?ops ?w1)"
    by blast+
  show ?thesis
    using h1 h2 first h3 a b c by (simp add: result_def)
qed

section \<open>The import of the smoke-test script\<close>

text \<open>
  Claim C10. The facade module binds no name \<open>simple_generate\<close>, which line 9 of the
  script imports from it. Running the script therefore ends in the \<open>ImportError\<close> for
  that name, or in the error of the import of the module itself; in both cases the part
  of the script after the import, with all its checks, does not run and the state of
  the process is as it was.
\<close>

theorem test_ollama_fails_at_import:
  "''simple_generate'' \<notin> set ollama_client_module \<and>
   test_ollama None main w = (Inl (ImportError ''simple_generate''), w) \<and>
   test_ollama (Some e) main w = (Inl e, w)"
  by (simp add: test_ollama_def import_ollama_client_def ollama_client_module_def
      py_bind_def lift_def)


end
